theory Spec2Isabelle
  imports Complex_Main "HOL-Library.Char_ord" "HOL-Library.List_Lexorder"
begin

section \<open>Go values used by the package\<close>

text \<open>
  The package \<open>simpleforce\<close> is a client of a remote REST/SOAP service. Everything it
  computes itself is modelled below as HOL functions; everything it obtains from the Go
  standard library (\<open>encoding/json\<close>, \<open>encoding/xml\<close>, \<open>net/url\<close>, \<open>net/http\<close>) or
  from the network is an explicit parameter, collected in the record \<open>env\<close>, so that
  every theorem holds for whatever those libraries and the remote server do.

  A Go \<open>string\<close> and a \<open>[]byte\<close> are both \<open>string\<close> (a list of bytes); a Go \<open>int\<close> is
  \<open>int\<close>: the package only compares status codes, it never does arithmetic on them.
  The output of \<open>log.Println\<close> is not part of the model.
\<close>

text \<open>A run-time panic of the Go program; a function that panics returns no value.\<close>

datatype panic =
    IndexOutOfRange nat nat  \<comment> \<open>index, length\<close>
  | NilPointerDereference
  | TypeAssertionFailed

datatype 'a outcome = Panic panic | Return 'a

subsection \<open>errorHelpers.go: the error values\<close>

text \<open>
  \<open>SfdcError.Extra\<close> has type \<open>interface{}\<close>; the package stores either nothing (nil)
  or a \<open>map[string]interface{}\<close> with the single key \<open>StatusCode\<close> bound to an int.
\<close>

record SfdcError =
  Code :: string
  Message :: string
  Extra :: "(string \<times> int) list option"

definition ERR_FAILURE :: SfdcError where
  "ERR_FAILURE = \<lparr>Code = ''GENERAL_FAILURE'', Message = ''general failure'', Extra = None\<rparr>"

definition ERR_AUTHENTICATION :: SfdcError where
  "ERR_AUTHENTICATION = \<lparr>Code = ''AUTH_ERROR'', Message = ''authentication failure'', Extra = None\<rparr>"

definition ERR_DATA_NOT_FOUND :: SfdcError where
  "ERR_DATA_NOT_FOUND = \<lparr>Code = ''NOT_FOUND'', Message = ''data not found'', Extra = None\<rparr>"

definition errorCodes :: "int list" where
  "errorCodes = [500, 503, 403]"

text \<open>
  A value of Go's interface type \<open>error\<close> as this package produces it: an \<open>SfdcError\<close>
  value, the package-level sentinel \<open>ERR_RETRY\<close> (a pointer made once by \<open>errors.New\<close>,
  compared by identity), or an error made by the standard library (transport and
  decoding errors), which is neither.
\<close>

datatype go_error =
    Sfdc SfdcError
  | ERR_RETRY
  | StdlibError string

text \<open>\<open>func (se SfdcError) Error() string\<close>; the text of the sentinel is \<open>retry call\<close>.\<close>

fun Error_string :: "go_error \<Rightarrow> string" where
  "Error_string (Sfdc se) = Message se"
| "Error_string ERR_RETRY = ''retry call''"
| "Error_string (StdlibError s) = s"

record jsonErrorItem =
  json_Message :: string
  json_ErrorCode :: string

type_synonym jsonError = "jsonErrorItem list"

record xmlError =
  xml_Message :: string
  xml_ErrorCode :: string

subsection \<open>force.go: the data\<close>

text \<open>The anonymous struct of the field \<open>user\<close>: \<open>id\<close>, \<open>name\<close>, \<open>fullName\<close>, \<open>email\<close>.\<close>

record user =
  user_id :: string
  user_name :: string
  user_fullName :: string
  user_email :: string

text \<open>
  \<open>httpClient\<close> is a pointer to an \<open>http.Client\<close>: \<open>None\<close> is nil, \<open>Some h\<close> is the
  client with handle \<open>h\<close>.
\<close>

record Client =
  sessionID :: string
  user :: user
  clientID :: string
  apiVersion :: string
  baseURL :: string
  instanceURL :: string
  useToolingAPI :: bool
  httpClient :: "nat option"

text \<open>
  A value of type \<open>interface{}\<close> after \<open>json.Unmarshal\<close>: nil, bool, float64 (every
  float64 a JSON number decodes to is a rational), string, \<open>[]interface{}\<close>,
  \<open>map[string]interface{}\<close>.
\<close>

datatype iface =
    INil
  | IBool bool
  | IFloat64 rat
  | IString string
  | ISlice "iface list"
  | IMap "(string \<times> iface) list"

text \<open>\<open>SObject\<close> is a \<open>map[string]interface{}\<close>: the source indexes it with a string.\<close>

type_synonym SObject = "(string \<times> iface) list"

record QueryResult =
  TotalSize :: int
  Done :: bool
  NextRecordsURL :: string
  Records :: "SObject list"

record Token =
  Id_Token :: string
  IssuedAt :: string
  Scope :: string
  Error_Token :: string
  ErrorDescription :: string
  RefreshToken_Token :: string
  InstanceUrl :: string
  Signature :: string
  AccessToken :: string

subsection \<open>The HTTP exchange\<close>

record request =
  req_method :: string
  req_url :: string
  req_header :: "(string \<times> string) list"
  req_body :: "string option"

text \<open>
  A response body is a stream: the bytes that can be read from it, and the error that
  ends the reading, if any. \<open>bytes.Buffer.ReadFrom\<close> keeps the bytes and the source
  drops its error; \<open>ioutil.ReadAll\<close> returns both.
\<close>

datatype body = Body string "string option"

fun ReadFrom :: "body \<Rightarrow> string" where
  "ReadFrom (Body data err) = data"

fun ReadAll :: "body \<Rightarrow> string \<times> string option" where
  "ReadAll (Body data err) = (data, err)"

record response =
  StatusCode :: int
  resp_Body :: body

text \<open>
  What \<open>httpClient.Do\<close> returns: a response and no error, or an error together with a
  response that is nil in all cases but a failed redirect check.
\<close>

datatype do_result =
    DoResponse response
  | DoError string "response option"

text \<open>The calls to \<open>httpClient.Do\<close> made so far, oldest first.\<close>

record world =
  calls :: "request list"

text \<open>
  The standard library and the network. \<open>json_jsonError\<close>, \<open>xml_xmlError\<close>,
  \<open>json_QueryResult\<close>, \<open>json_SObject\<close> and \<open>json_Token\<close> are \<open>json.Unmarshal\<close> and
  \<open>xml.Unmarshal\<close> at the five target types of the source: \<open>Inl\<close> is the error
  returned, \<open>Inr\<close> the value the target holds after a call that returned nil.
  \<open>NewRequest_err\<close> is the error of \<open>http.NewRequest\<close> for a method and a URL, if any.
  \<open>Do\<close> is \<open>http.Client.Do\<close> for a client handle, the calls made before, and the request.
  \<open>fmt_Sprintf\<close> is \<open>fmt.Sprintf\<close> with string operands, for the one call of the source
  whose format string is not a constant.
  \<open>setClient\<close> and \<open>Get\<close> are the methods of \<open>SObject\<close> (file sobject.go) that the two
  files modelled here call: \<open>Get\<close> is given the client, the type name, the slot and the
  identifier, and returns the pair \<open>(*SObject, error)\<close>.
\<close>

record env =
  json_jsonError :: "string \<Rightarrow> string + jsonError"
  xml_xmlError :: "string \<Rightarrow> string + xmlError"
  json_QueryResult :: "string \<Rightarrow> string + QueryResult"
  json_SObject :: "string \<Rightarrow> string + SObject"
  json_Token :: "string \<Rightarrow> string + Token"
  PathEscape :: "string \<Rightarrow> string"
  QueryEscape :: "string \<Rightarrow> string"
  Values_Encode :: "(string \<times> string list) list \<Rightarrow> string"
  fmt_Sprintf :: "string \<Rightarrow> string list \<Rightarrow> string"
  NewRequest_err :: "string \<Rightarrow> string \<Rightarrow> string option"
  Do :: "nat \<Rightarrow> request list \<Rightarrow> request \<Rightarrow> do_result"
  setClient :: "Client \<Rightarrow> SObject \<Rightarrow> SObject"
  Get :: "Client \<Rightarrow> string \<Rightarrow> nat \<Rightarrow> string \<Rightarrow> SObject option \<times> go_error option"

section \<open>errorHelpers.go: the functions\<close>

text \<open>
  \<open>ParseSalesforceError\<close>: the JSON decoding is tried first; \<open>jsonError[0]\<close> is read
  with no check of the length, and Go panics on an index out of range.
\<close>

definition ParseSalesforceError :: "env \<Rightarrow> int \<Rightarrow> string \<Rightarrow> go_error outcome" where
  "ParseSalesforceError E statusCode responseBody =
     (case json_jsonError E responseBody of
        Inl _ \<Rightarrow>
          (case xml_xmlError E responseBody of
             Inl _ \<Rightarrow> Return (Sfdc ERR_FAILURE)
           | Inr x \<Rightarrow>
               Return (Sfdc \<lparr>Code = xml_ErrorCode x, Message = xml_Message x,
                             Extra = Some [(''StatusCode'', statusCode)]\<rparr>))
      | Inr js \<Rightarrow>
          (case js of
             [] \<Rightarrow> Panic (IndexOutOfRange 0 0)
           | j # _ \<Rightarrow>
               Return (Sfdc \<lparr>Code = json_ErrorCode j, Message = json_Message j,
                             Extra = Some [(''StatusCode'', statusCode)]\<rparr>)))"

text \<open>\<open>RetryLogic\<close>: the loop over \<open>errorCodes\<close>, returning at the first equal entry.\<close>

primrec RetryLogic_loop :: "int list \<Rightarrow> int \<Rightarrow> bool" where
  "RetryLogic_loop [] n = False"
| "RetryLogic_loop (x # xs) n = (if x = n then True else RetryLogic_loop xs n)"

definition RetryLogic :: "int \<Rightarrow> bool" where
  "RetryLogic n = RetryLogic_loop errorCodes n"

section \<open>Functions of the packages strings and fmt\<close>

text \<open>\<open>strings.HasPrefix(s, prefix)\<close>: \<open>len(s) >= len(prefix) && s[:len(prefix)] == prefix\<close>.\<close>

definition HasPrefix :: "string \<Rightarrow> string \<Rightarrow> bool" where
  "HasPrefix s p = (length p \<le> length s \<and> take (length p) s = p)"

text \<open>
  \<open>strings.Replace(s, old, new, -1)\<close> for a non-empty \<open>old\<close>: every non-overlapping
  occurrence, from the left. The source calls it with \<open>old\<close> the constants \<open>query\<close> and
  \<open>v\<close> only; for an empty \<open>old\<close> (where Go inserts \<open>new\<close> around every character) the
  model returns \<open>s\<close>.
\<close>

fun Replace :: "string \<Rightarrow> string \<Rightarrow> string \<Rightarrow> string" where
  "Replace [] old new = []"
| "Replace (c # cs) old new =
     (if old \<noteq> [] \<and> HasPrefix (c # cs) old
      then new @ Replace (drop (length old - 1) cs) old new
      else c # Replace cs old new)"

text \<open>
  \<open>fmt.Sprintf\<close> with string operands, for a format whose only verbs are \<open>%s\<close> and
  that has as many verbs as operands: each \<open>%s\<close> is replaced by the next operand,
  unchanged, and every other character is copied. All constant format strings of the
  source are of that kind. (A \<open>%s\<close> with no operand left prints \<open>%!s(MISSING)\<close>.)
\<close>

fun Sprintf :: "string \<Rightarrow> string list \<Rightarrow> string" where
  "Sprintf [] args = []"
| "Sprintf [c] args = [c]"
| "Sprintf (c # d # fs) args =
     (if c = CHR ''%'' \<and> d = CHR ''s''
      then (case args of
              [] \<Rightarrow> ''%!s(MISSING)'' @ Sprintf fs []
            | a # rest \<Rightarrow> a @ Sprintf fs rest)
      else c # Sprintf (d # fs) args)"

section \<open>force.go: the functions\<close>

definition isLoggedIn :: "Client \<Rightarrow> bool" where
  "isLoggedIn client = (sessionID client \<noteq> [])"

text \<open>
  \<open>httpRequest\<close> returns \<open>([]byte, int, error)\<close>; a nil slice is the empty list. The
  call to \<open>Do\<close> is recorded in the world, also when it fails; on a nil \<open>httpClient\<close> the
  method call panics before anything is sent.
\<close>

definition httpRequest ::
  "env \<Rightarrow> Client \<Rightarrow> string \<Rightarrow> string \<Rightarrow> string option \<Rightarrow> world
     \<Rightarrow> (string \<times> int \<times> go_error option) outcome \<times> world" where
  "httpRequest E client method url body w =
     (case NewRequest_err E method url of
        Some e \<Rightarrow> (Return ([], 500, Some (StdlibError e)), w)
      | None \<Rightarrow>
          (let req = \<lparr>req_method = method, req_url = url,
                      req_header = [(''Authorization'', ''Bearer '' @ sessionID client),
                                    (''Content-Type'', ''application/json'')],
                      req_body = body\<rparr>
           in case httpClient client of
                None \<Rightarrow> (Panic NilPointerDereference, w)
              | Some h \<Rightarrow>
                  (let w' = w\<lparr>calls := calls w @ [req]\<rparr>
                   in case Do E h (calls w) req of
                        DoError e r \<Rightarrow> (Return ([], 400, Some (StdlibError e)), w')
                      | DoResponse resp \<Rightarrow>
                          if StatusCode resp < 200 \<or> StatusCode resp > 299
                          then (case ParseSalesforceError E (StatusCode resp)
                                       (ReadFrom (resp_Body resp)) of
                                  Panic p \<Rightarrow> (Panic p, w')
                                | Return theError \<Rightarrow>
                                    (Return ([], StatusCode resp, Some theError), w'))
                          else (case ReadAll (resp_Body resp) of
                                  (rBody, Some e) \<Rightarrow>
                                    (Return ([], 500, Some (Sfdc ERR_FAILURE)), w')
                                | (rBody, None) \<Rightarrow>
                                    (Return (rBody, StatusCode resp, None), w')))))"

text \<open>
  \<open>makeURL\<close> assigns to \<open>client.apiVersion\<close> before it formats: it returns the URL and
  the client as it is after the call.
\<close>

definition makeURL :: "Client \<Rightarrow> string \<Rightarrow> string \<times> Client" where
  "makeURL client req =
     (let client' = client\<lparr>apiVersion := Replace (apiVersion client) ''v'' []\<rparr>;
          retURL = Sprintf ''%s/services/data/v%s/%s''
                     [instanceURL client', apiVersion client', req]
      in (retURL, client'))"

text \<open>The URL that \<open>Query\<close> builds for its input \<open>q\<close> (the variable \<open>u\<close>).\<close>

definition Query_url :: "env \<Rightarrow> Client \<Rightarrow> string \<Rightarrow> string" where
  "Query_url E client q =
     (if HasPrefix q ''/services/data''
      then Sprintf ''%s%s'' [instanceURL client, q]
      else (let formatString = ''%s/services/data/v%s/query?q=%s'';
                baseURL' = instanceURL client;
                formatString' = (if useToolingAPI client
                                 then Replace formatString ''query'' ''tooling/query''
                                 else formatString)
            in Sprintf formatString' [baseURL', apiVersion client, PathEscape E q]))"

text \<open>
  \<open>Query\<close> returns \<open>(*QueryResult, error)\<close>: \<open>Inl\<close> is a nil result with the error,
  \<open>Inr\<close> the result with a nil error. The client is not assigned to.
\<close>

definition Query ::
  "env \<Rightarrow> Client \<Rightarrow> string \<Rightarrow> world \<Rightarrow> (go_error + QueryResult) outcome \<times> world" where
  "Query E client q w =
     (if \<not> isLoggedIn client then (Return (Inl (Sfdc ERR_AUTHENTICATION)), w)
      else (case httpRequest E client ''GET'' (Query_url E client q) None w of
              (Panic p, w') \<Rightarrow> (Panic p, w')
            | (Return (data, code, Some err), w') \<Rightarrow> (Return (Inl err), w')
            | (Return (data, code, None), w') \<Rightarrow>
                if RetryLogic code then (Return (Inl ERR_RETRY), w')
                else (case json_QueryResult E data of
                        Inl _ \<Rightarrow> (Return (Inl (Sfdc ERR_FAILURE)), w')
                      | Inr result \<Rightarrow>
                          (Return (Inr (result\<lparr>Records :=
                                     map (setClient E client) (Records result)\<rparr>)), w'))))"

subsection \<open>GetCreatedUpdatedRecords\<close>

text \<open>
  The loop \<open>for i, id := range sobjIds\<close> starts one goroutine per identifier. The
  operands of the \<open>go\<close> statement are evaluated by the loop itself, so the type
  assertion \<open>id.(string)\<close> panics there on the first element that is not a string.
  \<open>spawn\<close> returns the goroutines started, each with its slot and its identifier.
\<close>

fun spawn :: "iface list \<Rightarrow> nat \<Rightarrow> (nat \<times> string) list outcome" where
  "spawn [] i = Return []"
| "spawn (x # xs) i =
     (case x of
        IString s \<Rightarrow>
          (case spawn xs (Suc i) of
             Panic p \<Rightarrow> Panic p
           | Return gs \<Rightarrow> Return ((i, s) # gs))
      | _ \<Rightarrow> Panic TypeAssertionFailed)"

text \<open>
  The body of one goroutine: fetch the record, and store it in its slot when the fetch
  returned a nil error. A slot is a \<open>*SObject\<close>: \<open>None\<close> is nil, the zero value.
\<close>

definition goroutine ::
  "env \<Rightarrow> Client \<Rightarrow> string \<Rightarrow> nat \<times> string \<Rightarrow> SObject option list \<Rightarrow> SObject option list" where
  "goroutine E client name g sobjs =
     (case Get E client name (fst g) (snd g) of
        (sobj, None) \<Rightarrow> sobjs[fst g := sobj]
      | (sobj, Some err) \<Rightarrow> sobjs)"

text \<open>
  \<open>wg.Wait()\<close> returns when every goroutine has run. The order in which they complete
  is the scheduler's: \<open>sched\<close> lists the positions of the goroutines in that order.
\<close>

definition run_goroutines ::
  "env \<Rightarrow> Client \<Rightarrow> string \<Rightarrow> (nat \<times> string) list \<Rightarrow> nat list
     \<Rightarrow> SObject option list \<Rightarrow> SObject option list" where
  "run_goroutines E client name gs sched sobjs =
     fold (goroutine E client name) (map (\<lambda>k. gs ! k) (filter (\<lambda>k. k < length gs) sched)) sobjs"

text \<open>The part of \<open>GetCreatedUpdatedRecords\<close> after the decoding of the response.\<close>

definition fetch_all ::
  "env \<Rightarrow> Client \<Rightarrow> string \<Rightarrow> nat list \<Rightarrow> iface list \<Rightarrow> SObject option list outcome" where
  "fetch_all E client name sched sobjIds =
     (if length sobjIds > 0
      then (case spawn sobjIds 0 of
              Panic p \<Rightarrow> Panic p
            | Return gs \<Rightarrow>
                Return (run_goroutines E client name gs sched (replicate (length sobjIds) None)))
      else Return [])"

text \<open>
  \<open>GetCreatedUpdatedRecords\<close> returns \<open>([]*SObject, error)\<close>. The error of \<open>Do\<close> is not
  looked at: when \<open>Do\<close> returned a nil response, reading \<open>resp.StatusCode\<close> panics.
\<close>

definition GetCreatedUpdatedRecords ::
  "env \<Rightarrow> Client \<Rightarrow> string \<Rightarrow> string \<Rightarrow> string \<Rightarrow> nat list \<Rightarrow> world
     \<Rightarrow> (go_error + SObject option list) outcome \<times> Client \<times> world" where
  "GetCreatedUpdatedRecords E client name startDateTime endDateTime sched w =
     (if \<not> isLoggedIn client then (Return (Inl (Sfdc ERR_AUTHENTICATION)), client, w)
      else
       (case makeURL client ''sobjects/%s/updated/?start=%s&end=%s'' of
          (baseURL', client') \<Rightarrow>
       (let url = fmt_Sprintf E baseURL'
                    [name, QueryEscape E startDateTime, QueryEscape E endDateTime]
        in case NewRequest_err E ''GET'' url of
             Some e \<Rightarrow> (Return (Inl (Sfdc ERR_FAILURE)), client', w)
           | None \<Rightarrow>
       (let req = \<lparr>req_method = ''GET'', req_url = url,
                   req_header = [(''Content-Type'', ''application/json; charset=UTF-8''),
                                 (''Accept'', ''application/json''),
                                 (''Authorization'', ''Bearer '' @ sessionID client')],
                   req_body = None\<rparr>
        in case httpClient client' of
             None \<Rightarrow> (Panic NilPointerDereference, client', w)
           | Some h \<Rightarrow>
       (let w' = w\<lparr>calls := calls w @ [req]\<rparr>
        in case (case Do E h (calls w) req of
                   DoResponse r \<Rightarrow> Some r
                 | DoError e r \<Rightarrow> r) of
             None \<Rightarrow> (Panic NilPointerDereference, client', w')
           | Some resp \<Rightarrow>
               if StatusCode resp < 200 \<or> StatusCode resp > 299
               then (case ParseSalesforceError E (StatusCode resp) (ReadFrom (resp_Body resp)) of
                       Panic p \<Rightarrow> (Panic p, client', w')
                     | Return theError \<Rightarrow> (Return (Inl theError), client', w'))
               else if RetryLogic (StatusCode resp)
               then (Return (Inl ERR_RETRY), client', w')
               else
                (case ReadAll (resp_Body resp) of
                   (respData, Some e) \<Rightarrow> (Return (Inl (Sfdc ERR_FAILURE)), client', w')
                 | (respData, None) \<Rightarrow>
                (case json_SObject E respData of
                   Inl e \<Rightarrow> (Return (Inl (Sfdc ERR_FAILURE)), client', w')
                 | Inr sobj \<Rightarrow>
                (case map_of sobj ''ids'' of
                   None \<Rightarrow> (Return (Inl (Sfdc ERR_FAILURE)), client', w')
                 | Some ids \<Rightarrow>
                (case ids of
                   ISlice sobjIds \<Rightarrow>
                     (case fetch_all E client' name sched sobjIds of
                        Panic p \<Rightarrow> (Panic p, client', w')
                      | Return sobjs \<Rightarrow> (Return (Inr sobjs), client', w'))
                 | _ \<Rightarrow> (Return (Inl (Sfdc ERR_FAILURE)), client', w'))))))))))"

subsection \<open>RefreshToken\<close>

text \<open>
  \<open>RefreshToken\<close> returns \<open>(interface{}, error)\<close>; the value is the decoded \<open>*Token\<close>.
  \<open>params\<close> is a \<open>url.Values\<close>, a map from a key to its values, given to \<open>Encode\<close>.
\<close>

definition RefreshToken ::
  "env \<Rightarrow> Client \<Rightarrow> string \<Rightarrow> string \<Rightarrow> string \<Rightarrow> world
     \<Rightarrow> (go_error + Token) outcome \<times> Client \<times> world" where
  "RefreshToken E client clientId clientSecret refreshToken w =
     (case makeURL client ''services/oauth2/token'' of
        (baseURL', client') \<Rightarrow>
     (let params = [(''format'', [''json'']),
                    (''grant_type'', [''refresh_token'']),
                    (''client_id'', [clientId]),
                    (''client_secret'', [clientSecret]),
                    (''refresh_token'', [refreshToken])]
      in case NewRequest_err E ''POST'' baseURL' of
           Some e \<Rightarrow> (Return (Inl (Sfdc ERR_FAILURE)), client', w)
         | None \<Rightarrow>
     (let req = \<lparr>req_method = ''POST'', req_url = baseURL',
                 req_header = [(''Accept'', ''application/json''),
                               (''Content-Type'', ''application/x-www-form-urlencoded'')],
                 req_body = Some (Values_Encode E params)\<rparr>
      in case httpClient client' of
           None \<Rightarrow> (Panic NilPointerDereference, client', w)
         | Some h \<Rightarrow>
     (let w' = w\<lparr>calls := calls w @ [req]\<rparr>
      in case Do E h (calls w) req of
           DoError e r \<Rightarrow> (Return (Inl (StdlibError e)), client', w')
         | DoResponse resp \<Rightarrow>
             if StatusCode resp < 200 \<or> StatusCode resp > 299
             then (case ParseSalesforceError E (StatusCode resp) (ReadFrom (resp_Body resp)) of
                     Panic p \<Rightarrow> (Panic p, client', w')
                   | Return theError \<Rightarrow> (Return (Inl theError), client', w'))
             else
              (case ReadAll (resp_Body resp) of
                 (data, Some e) \<Rightarrow> (Return (Inl (StdlibError e)), client', w')
               | (data, None) \<Rightarrow>
              (case json_Token E data of
                 Inl e \<Rightarrow> (Return (Inl (StdlibError e)), client', w')
               | Inr token \<Rightarrow> (Return (Inr token), client', w')))))))"

section \<open>A concrete environment\<close>

text \<open>
  The theorems below hold for every environment. To run the functions on concrete
  inputs, this section fixes one: the two escaping functions and \<open>Values.Encode\<close> as
  the package \<open>net/url\<close> defines them, decoders that know a few response bodies, and a
  server that answers every request with one given result.
\<close>

text \<open>
  \<open>url.PathEscape\<close> and \<open>url.QueryEscape\<close>: letters, digits and \<open>-_.~\<close> are kept; a path
  segment also keeps \<open>$&+:=@\<close>; a query component writes a space as \<open>+\<close>; every other
  byte becomes \<open>%XX\<close> with upper-case hexadecimal digits.
\<close>

definition unreserved :: "char \<Rightarrow> bool" where
  "unreserved c =
     (c \<in> set ''abcdefghijklmnopqrstuvwxyzABCDEFGHIJKLMNOPQRSTUVWXYZ0123456789-_.~'')"

definition upperhex :: "nat \<Rightarrow> char" where
  "upperhex n = ''0123456789ABCDEF'' ! (n mod 16)"

definition percent :: "char \<Rightarrow> string" where
  "percent c = [CHR ''%'', upperhex (of_char c div 16), upperhex (of_char c)]"

primrec url_PathEscape :: "string \<Rightarrow> string" where
  "url_PathEscape [] = []"
| "url_PathEscape (c # cs) =
     (if unreserved c \<or> c \<in> set ''$&+:=@'' then [c] else percent c) @ url_PathEscape cs"

primrec url_QueryEscape :: "string \<Rightarrow> string" where
  "url_QueryEscape [] = []"
| "url_QueryEscape (c # cs) =
     (if unreserved c then [c] else if c = CHR '' '' then ''+'' else percent c)
       @ url_QueryEscape cs"

text \<open>
  \<open>url.Values.Encode\<close>: the keys in sorted order, each value as \<open>key=value\<close>, both
  escaped, joined by \<open>&\<close>.
\<close>

primrec join_amp :: "string list \<Rightarrow> string" where
  "join_amp [] = []"
| "join_amp (x # xs) = (if xs = [] then x else x @ ''&'' @ join_amp xs)"

definition url_Values_Encode :: "(string \<times> string list) list \<Rightarrow> string" where
  "url_Values_Encode v =
     join_amp (concat (map (\<lambda>(k, vs). map (\<lambda>x. url_QueryEscape k @ ''='' @ url_QueryEscape x) vs)
                           (sort_key fst v)))"

definition sample_error_body :: string where
  \<open>sample_error_body =
     ''[{"message":"Session expired or invalid","errorCode":"INVALID_SESSION_ID"}]''\<close>

definition sample_ids_body :: string where
  \<open>sample_ids_body = ''{"ids":["A","B","C"],"latestDateCovered":"2024-01-02T00:00:00.000+0000"}''\<close>

definition sample_token_body :: string where
  \<open>sample_token_body = ''{"access_token":"00Dxx!AR8AQ","instance_url":"https://na1.salesforce.com"}''\<close>

definition sample_token :: Token where
  "sample_token =
     \<lparr>Id_Token = [], IssuedAt = [], Scope = [], Error_Token = [], ErrorDescription = [],
      RefreshToken_Token = [], InstanceUrl = ''https://na1.salesforce.com'', Signature = [],
      AccessToken = ''00Dxx!AR8AQ''\<rparr>"

text \<open>
  The decoders of the sample: \<open>json.Unmarshal\<close> into a slice returns nil for the bodies
  \<open>[]\<close> and \<open>null\<close> and leaves the slice empty; the other bodies are decoded as written
  above; any other body is an error. The fetch of the record \<open>B\<close> fails, the fetch of
  any other record returns a record with the field \<open>Id\<close>. \<open>setClient\<close> belongs to a
  file that is not modelled: the sample leaves the record as it is.
\<close>

definition sample_env :: "do_result \<Rightarrow> env" where
  "sample_env r =
     \<lparr>json_jsonError = (\<lambda>b.
        if b = ''[]'' \<or> b = ''null'' then Inr []
        else if b = sample_error_body
        then Inr [\<lparr>json_Message = ''Session expired or invalid'',
                   json_ErrorCode = ''INVALID_SESSION_ID''\<rparr>]
        else Inl ''invalid character''),
      xml_xmlError = (\<lambda>b. Inl ''EOF''),
      json_QueryResult = (\<lambda>b. Inl ''unexpected end of JSON input''),
      json_SObject = (\<lambda>b.
        if b = sample_ids_body
        then Inr [(''ids'', ISlice [IString ''A'', IString ''B'', IString ''C'']),
                  (''latestDateCovered'', IString ''2024-01-02T00:00:00.000+0000'')]
        else Inl ''unexpected end of JSON input''),
      json_Token = (\<lambda>b.
        if b = sample_token_body then Inr sample_token
        else Inl ''unexpected end of JSON input''),
      PathEscape = url_PathEscape,
      QueryEscape = url_QueryEscape,
      Values_Encode = url_Values_Encode,
      fmt_Sprintf = Sprintf,
      NewRequest_err = (\<lambda>m u. None),
      Do = (\<lambda>h cs req. r),
      setClient = (\<lambda>c s. s),
      Get = (\<lambda>c n i x.
        if x = ''B'' then (None, Some (Sfdc ERR_DATA_NOT_FOUND))
        else (Some [(''Id'', IString x)], None))\<rparr>"

definition sample_client :: Client where
  "sample_client =
     \<lparr>sessionID = ''00Dxx!AQ4AQ'',
      user = \<lparr>user_id = ''005xx'', user_name = ''u@example.com'',
               user_fullName = ''U'', user_email = ''u@example.com''\<rparr>,
      clientID = ''simpleforce'',
      apiVersion = ''v43.0'',
      baseURL = ''https://login.salesforce.com/'',
      instanceURL = ''https://na1.salesforce.com'',
      useToolingAPI = False,
      httpClient = Some 0\<rparr>"

definition sample_response :: "int \<Rightarrow> string \<Rightarrow> do_result" where
  "sample_response status b = DoResponse \<lparr>StatusCode = status, resp_Body = Body b None\<rparr>"

section \<open>Facts about the concrete environment\<close>

lemma sample_env_simps:
  "NewRequest_err (sample_env r) m u = None"
  "PathEscape (sample_env r) = url_PathEscape"
  "Do (sample_env r) h cs req = r"
  by (simp_all add: sample_env_def)

lemma sample_client_simps:
  "sessionID sample_client = ''00Dxx!AQ4AQ''"
  "instanceURL sample_client = ''https://na1.salesforce.com''"
  "apiVersion sample_client = ''v43.0''"
  "useToolingAPI sample_client = False"
  "httpClient sample_client = Some 0"
  by (simp_all add: sample_client_def)

lemma sample_json_error:
  "json_jsonError (sample_env r) sample_error_body
     = Inr [\<lparr>json_Message = ''Session expired or invalid'',
              json_ErrorCode = ''INVALID_SESSION_ID''\<rparr>]"
  by (simp add: sample_env_def sample_error_body_def)

lemma url_PathEscape_example:
  "url_PathEscape ''SELECT Id FROM Account'' = ''SELECT%20Id%20FROM%20Account''"
  by (simp add: unreserved_def percent_def upperhex_def)

section \<open>The retry predicate\<close>

lemma RetryLogic_errorCodes: "RetryLogic n \<longleftrightarrow> n = 500 \<or> n = 503 \<or> n = 403"
  by (auto simp: RetryLogic_def errorCodes_def)

text \<open>
  Claim C9. For every integer \<open>n\<close>, \<open>RetryLogic n\<close> is true if and only if \<open>n\<close> is 500,
  503 or 403; it is false for every other integer, zero and the negative ones included.
\<close>

theorem RetryLogic_iff: "RetryLogic n \<longleftrightarrow> n \<in> {500, 503, 403}"
  by (auto simp: RetryLogic_def errorCodes_def)

section \<open>The error classifier\<close>

text \<open>The three ways \<open>ParseSalesforceError\<close> returns, and the one way it does not.\<close>

lemma ParseSalesforceError_Sfdc:
  "ParseSalesforceError E statusCode b = Return e \<Longrightarrow> \<exists>se. e = Sfdc se"
  by (auto simp: ParseSalesforceError_def split: sum.splits list.splits)

lemma ParseSalesforceError_empty:
  "json_jsonError E b = Inr [] \<Longrightarrow> ParseSalesforceError E statusCode b = Panic (IndexOutOfRange 0 0)"
  by (simp add: ParseSalesforceError_def)

lemma ParseSalesforceError_returns:
  "json_jsonError E b \<noteq> Inr [] \<Longrightarrow> \<exists>se. ParseSalesforceError E statusCode b = Return (Sfdc se)"
  by (auto simp: ParseSalesforceError_def split: sum.splits list.splits)

lemma ParseSalesforceError_neither:
  "json_jsonError E b = Inl e1 \<Longrightarrow> xml_xmlError E b = Inl e2
     \<Longrightarrow> ParseSalesforceError E statusCode b = Return (Sfdc ERR_FAILURE)"
  by (simp add: ParseSalesforceError_def)

lemma ParseSalesforceError_xml:
  "json_jsonError E b = Inl e1 \<Longrightarrow> xml_xmlError E b = Inr x
     \<Longrightarrow> ParseSalesforceError E statusCode b =
           Return (Sfdc \<lparr>Code = xml_ErrorCode x, Message = xml_Message x,
                         Extra = Some [(''StatusCode'', statusCode)]\<rparr>)"
  by (simp add: ParseSalesforceError_def)

lemma sample_classified:
  "ParseSalesforceError (sample_env r) statusCode sample_error_body =
     Return (Sfdc \<lparr>Code = ''INVALID_SESSION_ID'', Message = ''Session expired or invalid'',
                   Extra = Some [(''StatusCode'', statusCode)]\<rparr>)"
  by (simp add: ParseSalesforceError_def sample_json_error)

text \<open>
  Claim C1 says that \<open>ParseSalesforceError\<close> returns an error value for every status
  code and every body. The code does not: for the bodies \<open>[]\<close> and \<open>null\<close> the JSON
  decoding succeeds and leaves the slice empty, and reading \<open>jsonError[0]\<close> panics with
  an index out of range, so no value is returned.
\<close>

theorem ParseSalesforceError_panics_on_empty_array:
  "ParseSalesforceError (sample_env (sample_response 400 ''[]'')) 400 ''[]''
     = Panic (IndexOutOfRange 0 0)
   \<and> ParseSalesforceError (sample_env (sample_response 400 ''null'')) 400 ''null''
     = Panic (IndexOutOfRange 0 0)"
  by (simp add: ParseSalesforceError_def sample_env_def)

text \<open>
  Claim C4, as stated, covers every body that is a JSON array of error objects; the
  empty array is one, it has no first element, and the code panics on it.
\<close>

theorem ParseSalesforceError_empty_array_no_first_element:
  "json_jsonError (sample_env (sample_response 404 ''[]'')) ''[]'' = Inr []
   \<and> ParseSalesforceError (sample_env (sample_response 404 ''[]'')) 404 ''[]''
     = Panic (IndexOutOfRange 0 0)"
  by (simp add: ParseSalesforceError_def sample_env_def)

text \<open>
  Claim C4, amended. For every status code and every body that decodes as a JSON array
  of \<open>{message, errorCode}\<close> objects with at least one element, \<open>ParseSalesforceError\<close>
  returns an \<open>SfdcError\<close> whose \<open>Message\<close> and \<open>Code\<close> are the \<open>message\<close> and the
  \<open>errorCode\<close> of the first element, and whose \<open>Extra\<close> is a map that binds
  \<open>StatusCode\<close> to the status code given.
\<close>

theorem ParseSalesforceError_json:
  assumes "json_jsonError E b = Inr (j # js)"
  shows "\<exists>se m. ParseSalesforceError E statusCode b = Return (Sfdc se)
           \<and> Message se = json_Message j \<and> Code se = json_ErrorCode j
           \<and> Extra se = Some m \<and> map_of m ''StatusCode'' = Some statusCode"
  using assms by (simp add: ParseSalesforceError_def)

theorem ParseSalesforceError_json_witness:
  "json_jsonError (sample_env (sample_response 401 sample_error_body)) sample_error_body
     = Inr [\<lparr>json_Message = ''Session expired or invalid'',
              json_ErrorCode = ''INVALID_SESSION_ID''\<rparr>]
   \<and> (\<exists>se m. ParseSalesforceError (sample_env (sample_response 401 sample_error_body)) 401
                sample_error_body = Return (Sfdc se)
           \<and> Message se = ''Session expired or invalid'' \<and> Code se = ''INVALID_SESSION_ID''
           \<and> Extra se = Some m \<and> map_of m ''StatusCode'' = Some 401)"
proof -
  have h: "json_jsonError (sample_env (sample_response 401 sample_error_body)) sample_error_body
     = Inr [\<lparr>json_Message = ''Session expired or invalid'',
              json_ErrorCode = ''INVALID_SESSION_ID''\<rparr>]"
    by (simp add: sample_env_def sample_error_body_def)
  from ParseSalesforceError_json [OF h, of 401] h show ?thesis by simp
qed

section \<open>Query\<close>

text \<open>
  Claim C5. For every client whose session ID is empty, \<open>Query\<close> returns
  \<open>ERR_AUTHENTICATION\<close> at once: no call to \<open>Do\<close> is made and the world is as before
  (\<open>Query\<close> never assigns to the client).
\<close>

theorem Query_unauthenticated:
  assumes "sessionID client = []"
  shows "Query E client q w = (Return (Inl (Sfdc ERR_AUTHENTICATION)), w)"
  using assms by (simp add: Query_def isLoggedIn_def)

theorem Query_unauthenticated_witness:
  "sessionID (sample_client\<lparr>sessionID := []\<rparr>) = []
   \<and> Query (sample_env (sample_response 200 [])) (sample_client\<lparr>sessionID := []\<rparr>)
        ''SELECT Id FROM Account'' \<lparr>calls = []\<rparr>
     = (Return (Inl (Sfdc ERR_AUTHENTICATION)), \<lparr>calls = []\<rparr>)"
proof -
  have h: "sessionID (sample_client\<lparr>sessionID := []\<rparr>) = []" by simp
  from Query_unauthenticated [OF h] h show ?thesis by simp
qed

subsection \<open>The request that Query sends\<close>

lemma Query_url_eq:
  "Query_url E client q =
     (if HasPrefix q ''/services/data'' then instanceURL client @ q
      else instanceURL client @ ''/services/data/v'' @ apiVersion client @
           (if useToolingAPI client then ''/tooling/query?q='' else ''/query?q='') @ PathEscape E q)"
  by (simp add: Query_url_def Let_def HasPrefix_def)

lemma httpRequest_NewRequest_err:
  "NewRequest_err E m u = Some e
     \<Longrightarrow> httpRequest E client m u b w = (Return ([], 500, Some (StdlibError e)), w)"
  by (simp add: httpRequest_def)

lemma httpRequest_nil_client:
  "NewRequest_err E m u = None \<Longrightarrow> httpClient client = None
     \<Longrightarrow> httpRequest E client m u b w = (Panic NilPointerDereference, w)"
  by (simp add: httpRequest_def)

lemma httpRequest_calls:
  "NewRequest_err E m u = None \<Longrightarrow> httpClient client = Some h
     \<Longrightarrow> snd (httpRequest E client m u b w) =
           w\<lparr>calls := calls w @ [\<lparr>req_method = m, req_url = u,
                      req_header = [(''Authorization'', ''Bearer '' @ sessionID client),
                                    (''Content-Type'', ''application/json'')],
                      req_body = b\<rparr>]\<rparr>"
  by (simp add: httpRequest_def Let_def split: do_result.split outcome.split prod.split option.split)

lemma Query_world:
  "sessionID client \<noteq> []
     \<Longrightarrow> snd (Query E client q w) = snd (httpRequest E client ''GET'' (Query_url E client q) None w)"
  by (simp add: Query_def isLoggedIn_def split: prod.split outcome.split option.split sum.split)

text \<open>
  Claim C6. For every authenticated client, \<open>Query\<close> with an input that begins with
  \<open>/services/data\<close> uses the instance URL followed by the input, unchanged, as the URL
  of its request; with any other input \<open>q\<close> the URL is the instance URL, then
  \<open>/services/data/v\<close>, the stored API version, \<open>/query?q=\<close> (\<open>/tooling/query?q=\<close>
  when the tooling flag is set) and \<open>q\<close> escaped by \<open>url.PathEscape\<close>. That URL is
  given to \<open>http.NewRequest\<close>, and the request sent by \<open>Do\<close> is a GET of it.
\<close>

theorem Query_request_url:
  assumes "sessionID client \<noteq> []"
  shows "(let u = (if HasPrefix q ''/services/data'' then instanceURL client @ q
                   else instanceURL client @ ''/services/data/v'' @ apiVersion client @
                        (if useToolingAPI client then ''/tooling/query?q='' else ''/query?q='')
                        @ PathEscape E q)
          in case NewRequest_err E ''GET'' u of
               Some e \<Rightarrow> Query E client q w = (Return (Inl (StdlibError e)), w)
             | None \<Rightarrow>
                 (case httpClient client of
                    None \<Rightarrow> Query E client q w = (Panic NilPointerDereference, w)
                  | Some h \<Rightarrow>
                      calls (snd (Query E client q w)) =
                        calls w @ [\<lparr>req_method = ''GET'', req_url = u,
                                    req_header = [(''Authorization'', ''Bearer '' @ sessionID client),
                                                  (''Content-Type'', ''application/json'')],
                                    req_body = None\<rparr>]))"
proof -
  let ?u = "Query_url E client q"
  have "case NewRequest_err E ''GET'' ?u of
               Some e \<Rightarrow> Query E client q w = (Return (Inl (StdlibError e)), w)
             | None \<Rightarrow>
                 (case httpClient client of
                    None \<Rightarrow> Query E client q w = (Panic NilPointerDereference, w)
                  | Some h \<Rightarrow>
                      calls (snd (Query E client q w)) =
                        calls w @ [\<lparr>req_method = ''GET'', req_url = ?u,
                                    req_header = [(''Authorization'', ''Bearer '' @ sessionID client),
                                                  (''Content-Type'', ''application/json'')],
                                    req_body = None\<rparr>])"
  proof (cases "NewRequest_err E ''GET'' ?u")
    case (Some e)
    with assms show ?thesis
      by (simp add: Query_def isLoggedIn_def httpRequest_NewRequest_err)
  next
    case None
    show ?thesis
    proof (cases "httpClient client")
      case hc: None
      with None assms show ?thesis
        by (simp add: Query_def isLoggedIn_def httpRequest_nil_client)
    next
      case (Some h)
      with None assms show ?thesis
        by (simp add: Query_world httpRequest_calls)
    qed
  qed
  then show ?thesis
    unfolding Let_def Query_url_eq .
qed

theorem Query_request_url_witness:
  "sessionID (sample_client\<lparr>apiVersion := ''43.0''\<rparr>) \<noteq> []
   \<and> map req_url (calls (snd (Query (sample_env (sample_response 200 []))
          (sample_client\<lparr>apiVersion := ''43.0''\<rparr>) ''SELECT Id FROM Account'' \<lparr>calls = []\<rparr>)))
     = [''https://na1.salesforce.com/services/data/v43.0/query?q=SELECT%20Id%20FROM%20Account'']
   \<and> map req_url (calls (snd (Query (sample_env (sample_response 200 []))
          (sample_client\<lparr>apiVersion := ''43.0'', useToolingAPI := True\<rparr>)
          ''SELECT Id FROM Account'' \<lparr>calls = []\<rparr>)))
     = [''https://na1.salesforce.com/services/data/v43.0/tooling/query?q=SELECT%20Id%20FROM%20Account'']
   \<and> map req_url (calls (snd (Query (sample_env (sample_response 200 []))
          (sample_client\<lparr>apiVersion := ''43.0''\<rparr>) ''/services/data/v43.0/query/01gXXX-2000''
          \<lparr>calls = []\<rparr>)))
     = [''https://na1.salesforce.com/services/data/v43.0/query/01gXXX-2000'']"
proof -
  have h: "sessionID (sample_client\<lparr>apiVersion := ''43.0''\<rparr>) \<noteq> []"
    by (simp add: sample_client_def)
  have h': "sessionID (sample_client\<lparr>apiVersion := ''43.0'', useToolingAPI := True\<rparr>) \<noteq> []"
    by (simp add: sample_client_def)
  from h Query_request_url [OF h, of "''SELECT Id FROM Account''" "sample_env (sample_response 200 [])" "\<lparr>calls = []\<rparr>"]
    Query_request_url [OF h', of "''SELECT Id FROM Account''" "sample_env (sample_response 200 [])" "\<lparr>calls = []\<rparr>"]
    Query_request_url [OF h, of "''/services/data/v43.0/query/01gXXX-2000''" "sample_env (sample_response 200 [])" "\<lparr>calls = []\<rparr>"]
  show ?thesis
    by (simp add: HasPrefix_def sample_env_simps sample_client_simps url_PathEscape_example
          del: url_PathEscape.simps)
qed

subsection \<open>The retry sentinel\<close>

text \<open>
  \<open>httpRequest\<close> returns a nil error only with a status code from 200 to 299, and its
  errors are never the sentinel; so the test \<open>RetryLogic(code)\<close> in \<open>Query\<close>, which
  comes after the test \<open>err != nil\<close>, never succeeds.
\<close>

lemma httpRequest_no_retry:
  "httpRequest E client m u b w = (Return (data, code, None), w') \<Longrightarrow> 200 \<le> code \<and> code \<le> 299"
  by (auto simp: httpRequest_def Let_def split: option.splits do_result.splits if_splits outcome.splits prod.splits)

lemma httpRequest_error_not_sentinel:
  "httpRequest E client m u b w = (Return (data, code, Some e), w') \<Longrightarrow> e \<noteq> ERR_RETRY"
  by (auto simp: httpRequest_def Let_def dest: ParseSalesforceError_Sfdc
      split: option.splits do_result.splits if_splits outcome.splits prod.splits)

lemma Query_never_ERR_RETRY: "fst (Query E client q w) \<noteq> Return (Inl ERR_RETRY)"
proof (cases "httpRequest E client ''GET'' (Query_url E client q) None w")
  case (Pair r w')
  show ?thesis
  proof (cases r)
    case (Panic p)
    with Pair show ?thesis by (simp add: Query_def)
  next
    case (Return t)
    obtain data code err where t: "t = (data, code, err)" by (cases t)
    show ?thesis
    proof (cases err)
      case None
      with Pair Return t have "200 \<le> code \<and> code \<le> 299"
        using httpRequest_no_retry by blast
      then have "\<not> RetryLogic code" by (simp add: RetryLogic_errorCodes)
      with Pair Return t None show ?thesis
        by (simp add: Query_def split: sum.splits)
    next
      case (Some e)
      have "e \<noteq> ERR_RETRY"
        using Pair Return t Some httpRequest_error_not_sentinel by blast
      with Pair Return t Some show ?thesis by (simp add: Query_def)
    qed
  qed
qed

lemma sample_Query_error:
  "status < 200 \<or> 299 < status \<Longrightarrow>
   Query (sample_env (sample_response status sample_error_body)) sample_client q \<lparr>calls = []\<rparr>
     = (Return (Inl (Sfdc \<lparr>Code = ''INVALID_SESSION_ID'', Message = ''Session expired or invalid'',
                           Extra = Some [(''StatusCode'', status)]\<rparr>)),
        \<lparr>calls = [\<lparr>req_method = ''GET'',
                    req_url = Query_url (sample_env (sample_response status sample_error_body)) sample_client q,
                    req_header = [(''Authorization'', ''Bearer 00Dxx!AQ4AQ''),
                                  (''Content-Type'', ''application/json'')],
                    req_body = None\<rparr>]\<rparr>)"
  by (simp add: Query_def isLoggedIn_def httpRequest_def sample_env_simps sample_client_simps sample_classified
        sample_response_def Let_def)

text \<open>
  Claim C2 says that \<open>Query\<close> returns the sentinel \<open>ERR_RETRY\<close> when the status code
  of the response is 500, 503 or 403. The code does not: for such a response
  \<open>httpRequest\<close> returns the classified error of the body, and \<open>Query\<close> returns that
  error before it looks at the status code.
\<close>

theorem Query_retryable_status_returns_classified_error:
  "fst (Query (sample_env (sample_response 500 sample_error_body)) sample_client
          ''SELECT Id FROM Account'' \<lparr>calls = []\<rparr>)
     = Return (Inl (Sfdc \<lparr>Code = ''INVALID_SESSION_ID'', Message = ''Session expired or invalid'',
                           Extra = Some [(''StatusCode'', 500)]\<rparr>))
   \<and> fst (Query (sample_env (sample_response 503 sample_error_body)) sample_client
          ''SELECT Id FROM Account'' \<lparr>calls = []\<rparr>)
     = Return (Inl (Sfdc \<lparr>Code = ''INVALID_SESSION_ID'', Message = ''Session expired or invalid'',
                           Extra = Some [(''StatusCode'', 503)]\<rparr>))
   \<and> fst (Query (sample_env (sample_response 403 sample_error_body)) sample_client
          ''SELECT Id FROM Account'' \<lparr>calls = []\<rparr>)
     = Return (Inl (Sfdc \<lparr>Code = ''INVALID_SESSION_ID'', Message = ''Session expired or invalid'',
                           Extra = Some [(''StatusCode'', 403)]\<rparr>))
   \<and> RetryLogic 500 \<and> RetryLogic 503 \<and> RetryLogic 403"
  by (simp add: sample_Query_error RetryLogic_errorCodes)

section \<open>makeURL\<close>

lemma Replace_v_filter: "Replace s ''v'' [] = filter (\<lambda>c. c \<noteq> CHR ''v'') s"
  by (induction s) (auto simp: HasPrefix_def)

lemma makeURL_eq:
  "makeURL client req =
     (instanceURL client @ ''/services/data/v'' @ filter (\<lambda>c. c \<noteq> CHR ''v'') (apiVersion client)
        @ ''/'' @ req,
      client\<lparr>apiVersion := filter (\<lambda>c. c \<noteq> CHR ''v'') (apiVersion client)\<rparr>)"
  by (simp add: makeURL_def Replace_v_filter Let_def)

text \<open>
  Claim C8 says that \<open>makeURL\<close> puts the stored API version, with one \<open>v\<close> before
  it, into the URL. The code removes every \<open>v\<close> of the stored version, not only a
  leading one: a client at version \<open>43.0-preview\<close> gets the segment \<open>/v43.0-preiew/\<close>,
  not \<open>/v43.0-preview/\<close>.
\<close>

theorem makeURL_removes_inner_v:
  "fst (makeURL (sample_client\<lparr>apiVersion := ''43.0-preview''\<rparr>) ''sobjects/Account'')
     = ''https://na1.salesforce.com/services/data/v43.0-preiew/sobjects/Account''
   \<and> fst (makeURL (sample_client\<lparr>apiVersion := ''43.0-preview''\<rparr>) ''sobjects/Account'')
     \<noteq> ''https://na1.salesforce.com/services/data/v43.0-preview/sobjects/Account''"
  by (simp add: makeURL_eq sample_client_simps)

text \<open>
  Claim C8, amended. For every client and path, \<open>makeURL\<close> returns the instance URL,
  then \<open>/services/data/v\<close>, the API version the client held before the call with every
  \<open>v\<close> character removed, \<open>/\<close> and the path. So for a stored version that is a
  version without any \<open>v\<close>, or such a version with one \<open>v\<close> before it, exactly one
  \<open>v\<close> stands before the version in the URL: with the stored version \<open>v43.0\<close> the URL
  has the segment \<open>/v43.0/\<close>, and it is not the URL with the segment \<open>/vv43.0/\<close>.
\<close>

theorem makeURL_url:
  "fst (makeURL client req) =
     instanceURL client @ ''/services/data/v''
       @ filter (\<lambda>c. c \<noteq> CHR ''v'') (apiVersion client) @ ''/'' @ req
   \<and> (\<forall>ver. CHR ''v'' \<notin> set ver
            \<and> (apiVersion client = ver \<or> apiVersion client = CHR ''v'' # ver) \<longrightarrow>
          fst (makeURL client req) = instanceURL client @ ''/services/data/v'' @ ver @ ''/'' @ req)
   \<and> (apiVersion client = ''v43.0'' \<longrightarrow>
        fst (makeURL client req) = instanceURL client @ ''/services/data/v43.0/'' @ req
        \<and> fst (makeURL client req) \<noteq> instanceURL client @ ''/services/data/vv43.0/'' @ req)"
proof -
  have "filter (\<lambda>c. c \<noteq> CHR ''v'') ver = ver" if "CHR ''v'' \<notin> set ver" for ver
    using that by (induction ver) auto
  then show ?thesis
    by (auto simp: makeURL_eq)
qed

theorem makeURL_url_witness:
  "apiVersion sample_client = ''v43.0''
   \<and> CHR ''v'' \<notin> set ''52.0''
   \<and> fst (makeURL sample_client ''sobjects/Account'')
       = ''https://na1.salesforce.com/services/data/v43.0/sobjects/Account''
   \<and> fst (makeURL sample_client ''sobjects/Account'')
       \<noteq> ''https://na1.salesforce.com/services/data/vv43.0/sobjects/Account''
   \<and> fst (makeURL (sample_client\<lparr>apiVersion := ''52.0''\<rparr>) ''sobjects/Account'')
       = ''https://na1.salesforce.com/services/data/v52.0/sobjects/Account''"
proof -
  have h: "apiVersion sample_client = ''v43.0''"
    by (simp add: sample_client_simps)
  have v: "CHR ''v'' \<notin> set ''52.0''"
    by simp
  have h52: "apiVersion (sample_client\<lparr>apiVersion := ''52.0''\<rparr>) = ''52.0''"
    by simp
  from makeURL_url [of sample_client "''sobjects/Account''"] h
  have a: "fst (makeURL sample_client ''sobjects/Account'')
          = instanceURL sample_client @ ''/services/data/v43.0/'' @ ''sobjects/Account''
        \<and> fst (makeURL sample_client ''sobjects/Account'')
          \<noteq> instanceURL sample_client @ ''/services/data/vv43.0/'' @ ''sobjects/Account''"
    by blast
  from makeURL_url [of "sample_client\<lparr>apiVersion := ''52.0''\<rparr>" "''sobjects/Account''"] v h52
  have b: "fst (makeURL (sample_client\<lparr>apiVersion := ''52.0''\<rparr>) ''sobjects/Account'')
          = instanceURL (sample_client\<lparr>apiVersion := ''52.0''\<rparr>) @ ''/services/data/v''
              @ ''52.0'' @ ''/'' @ ''sobjects/Account''"
    by blast
  from h v a b show ?thesis
    by (simp add: sample_client_simps)
qed

lemma RefreshToken_client:
  "fst (snd (RefreshToken E client clientId clientSecret refreshToken w))
     = snd (makeURL client ''services/oauth2/token'')"
  by (simp add: RefreshToken_def Let_def
      split: prod.split option.split do_result.split outcome.split sum.split)

text \<open>
  Claim C10. Every call of \<open>makeURL\<close> assigns to the field \<open>apiVersion\<close> of the client
  the stored version without any of its \<open>v\<close> characters (a \<open>v\<close> inside the version is
  removed as well: \<open>v43.0-preview\<close> becomes \<open>43.0-preiew\<close>), and leaves every other
  field as it is. The client keeps the new version: a second call finds it, a caller
  such as \<open>RefreshToken\<close> hands the changed client on, and a later \<open>Query\<close> builds its
  URL from it.
\<close>

theorem makeURL_mutates_apiVersion:
  "snd (makeURL client req) =
     client\<lparr>apiVersion := filter (\<lambda>c. c \<noteq> CHR ''v'') (apiVersion client)\<rparr>
   \<and> snd (makeURL (snd (makeURL client req)) req') = snd (makeURL client req)
   \<and> fst (snd (RefreshToken E client clientId clientSecret refreshToken w))
       = client\<lparr>apiVersion := filter (\<lambda>c. c \<noteq> CHR ''v'') (apiVersion client)\<rparr>
   \<and> Query_url E (snd (makeURL (client\<lparr>apiVersion := ''v43.0''\<rparr>) req)) ''SELECT Id FROM Account''
       = instanceURL client @ ''/services/data/v43.0''
           @ (if useToolingAPI client then ''/tooling/query?q='' else ''/query?q='')
           @ PathEscape E ''SELECT Id FROM Account''
   \<and> apiVersion (snd (makeURL (client\<lparr>apiVersion := ''v43.0-preview''\<rparr>) req)) = ''43.0-preiew''"
  by (simp add: makeURL_eq RefreshToken_client Query_url_eq HasPrefix_def)

section \<open>RefreshToken\<close>







section \<open>GetCreatedUpdatedRecords\<close>

text \<open>
  The goroutines write to slots of their own, so the slice they leave does not depend
  on the order in which they complete.
\<close>

lemma spawn_strings:
  "spawn (map IString ids) k = Return (map (\<lambda>i. (k + i, ids ! i)) [0..<length ids])"
proof (induction ids arbitrary: k)
  case Nil
  then show ?case by simp
next
  case (Cons x xs)
  have "map (\<lambda>i. (k + i, (x # xs) ! i)) [0..<length (x # xs)]
          = (k, x) # map (\<lambda>i. (Suc k + i, xs ! i)) [0..<length xs]"
    by (simp add: upt_conv_Cons map_Suc_upt [symmetric] del: upt_Suc)
  with Cons show ?case by simp
qed

lemma fetch_all_not_a_string:
  "fetch_all E client name sched (IFloat64 x # sobjIds) = Panic TypeAssertionFailed"
  by (simp add: fetch_all_def)

lemma length_goroutine: "length (goroutine E client name g sobjs) = length sobjs"
  by (simp add: goroutine_def split: prod.split option.split)

lemma length_fold_goroutine:
  "length (fold (goroutine E client name) gl sobjs) = length sobjs"
  by (induction gl arbitrary: sobjs) (simp_all add: length_goroutine)

lemma goroutine_nth:
  "i < length sobjs \<Longrightarrow>
   goroutine E client name g sobjs ! i =
     (if i = fst g
      then (case Get E client name i (snd g) of (sobj, None) \<Rightarrow> sobj | (sobj, Some err) \<Rightarrow> sobjs ! i)
      else sobjs ! i)"
  by (simp add: goroutine_def split: prod.split option.split)

lemma fold_goroutine_nth:
  "distinct (map fst gl) \<Longrightarrow> i < length sobjs \<Longrightarrow>
   fold (goroutine E client name) gl sobjs ! i =
     (case map_of gl i of
        None \<Rightarrow> sobjs ! i
      | Some x \<Rightarrow> (case Get E client name i x of (sobj, None) \<Rightarrow> sobj | (sobj, Some err) \<Rightarrow> sobjs ! i))"
proof (induction gl arbitrary: sobjs)
  case Nil
  then show ?case by simp
next
  case (Cons g gl)
  from Cons.prems have d: "distinct (map fst gl)" and nin: "fst g \<notin> fst ` set gl"
    by simp_all
  have len: "i < length (goroutine E client name g sobjs)"
    using Cons.prems(2) by (simp add: length_goroutine)
  have none: "map_of gl (fst g) = None"
    using nin by (simp add: map_of_eq_None_iff)
  have step: "goroutine E client name g sobjs ! i =
     (if i = fst g
      then (case Get E client name i (snd g) of (sobj, None) \<Rightarrow> sobj | (sobj, Some err) \<Rightarrow> sobjs ! i)
      else sobjs ! i)"
    using Cons.prems(2) by (rule goroutine_nth)
  have m: "map_of (g # gl) i = (if i = fst g then Some (snd g) else map_of gl i)"
    by (cases g) simp
  have "fold (goroutine E client name) (g # gl) sobjs ! i
          = fold (goroutine E client name) gl (goroutine E client name g sobjs) ! i"
    by simp
  also have "\<dots> = (case map_of gl i of
        None \<Rightarrow> goroutine E client name g sobjs ! i
      | Some x \<Rightarrow> (case Get E client name i x of (sobj, None) \<Rightarrow> sobj
                   | (sobj, Some err) \<Rightarrow> goroutine E client name g sobjs ! i))"
    by (rule Cons.IH [OF d len])
  also have "\<dots> = (case map_of (g # gl) i of
        None \<Rightarrow> sobjs ! i
      | Some x \<Rightarrow> (case Get E client name i x of (sobj, None) \<Rightarrow> sobj | (sobj, Some err) \<Rightarrow> sobjs ! i))"
  proof (cases "i = fst g")
    case True
    with none have "map_of gl i = None" by simp
    with True step show ?thesis by (simp add: m)
  next
    case False
    with step show ?thesis by (simp add: m split: option.split prod.split)
  qed
  finally show ?case .
qed

lemma map_of_sched:
  "map_of (map (\<lambda>k. (k, f k)) ks) i = (if i \<in> set ks then Some (f i) else None)"
  by (induction ks) auto

lemma run_goroutines_nth:
  assumes "distinct sched" and "set sched = {..<length ids}" and "i < length ids"
    and "length sobjs = length ids"
  shows "run_goroutines E client name (map (\<lambda>i. (i, ids ! i)) [0..<length ids]) sched sobjs ! i
           = (case Get E client name i (ids ! i) of (sobj, None) \<Rightarrow> sobj | (sobj, Some err) \<Rightarrow> sobjs ! i)"
proof -
  let ?gs = "map (\<lambda>i. (i, ids ! i)) [0..<length ids]"
  have f: "filter (\<lambda>k. k < length ids) sched = sched"
    using assms(2) by (auto simp: filter_id_conv)
  have lg: "length ?gs = length ids"
    by simp
  have mp: "map (\<lambda>k. ?gs ! k) sched = map (\<lambda>k. (k, ids ! k)) sched"
    using assms(2) by (auto simp: lessThan_iff)
  have r: "run_goroutines E client name ?gs sched sobjs
              = fold (goroutine E client name) (map (\<lambda>k. (k, ids ! k)) sched) sobjs"
    unfolding run_goroutines_def lg f mp by (rule refl)
  have d: "distinct (map fst (map (\<lambda>k. (k, ids ! k)) sched))"
    using assms(1) by (simp add: comp_def)
  have i: "i < length sobjs" using assms(3,4) by simp
  have s: "i \<in> set sched" using assms(2,3) by simp
  show ?thesis
    unfolding r fold_goroutine_nth [OF d i]
    by (simp add: map_of_sched s)
qed

lemma length_run_goroutines:
  "length (run_goroutines E client name gs sched sobjs) = length sobjs"
  by (simp add: run_goroutines_def length_fold_goroutine)

lemma fetch_all_strings:
  assumes "distinct sched" and "set sched = {..<length ids}"
  shows "\<exists>sobjs. fetch_all E client name sched (map IString ids) = Return sobjs
           \<and> length sobjs = length ids
           \<and> (\<forall>i<length ids. sobjs ! i =
                 (case Get E client name i (ids ! i) of
                    (sobj, None) \<Rightarrow> sobj
                  | (sobj, Some err) \<Rightarrow> None))"
proof (cases "ids = []")
  case True
  then show ?thesis by (simp add: fetch_all_def)
next
  case False
  let ?gs = "map (\<lambda>i. (i, ids ! i)) [0..<length ids]"
  let ?r = "run_goroutines E client name ?gs sched (replicate (length ids) None)"
  have "fetch_all E client name sched (map IString ids) = Return ?r"
    using False spawn_strings [of ids 0] by (simp add: fetch_all_def)
  moreover have "length ?r = length ids"
    by (simp add: length_run_goroutines)
  moreover have "\<forall>i<length ids. ?r ! i =
                 (case Get E client name i (ids ! i) of
                    (sobj, None) \<Rightarrow> sobj
                  | (sobj, Some err) \<Rightarrow> None)"
  proof (intro allI impI)
    fix i assume i: "i < length ids"
    have "?r ! i = (case Get E client name i (ids ! i) of
                    (sobj, None) \<Rightarrow> sobj
                  | (sobj, Some err) \<Rightarrow> replicate (length ids) None ! i)"
      by (rule run_goroutines_nth [OF assms i]) simp
    with i show "?r ! i = (case Get E client name i (ids ! i) of
                    (sobj, None) \<Rightarrow> sobj
                  | (sobj, Some err) \<Rightarrow> None)"
      by (simp split: prod.split option.split)
  qed
  ultimately show ?thesis by blast
qed

lemma GetCreatedUpdatedRecords_eq:
  assumes "sessionID client \<noteq> []"
    and "url = fmt_Sprintf E (fst (makeURL client ''sobjects/%s/updated/?start=%s&end=%s''))
                 [name, QueryEscape E startDateTime, QueryEscape E endDateTime]"
    and "req = \<lparr>req_method = ''GET'', req_url = url,
                 req_header = [(''Content-Type'', ''application/json; charset=UTF-8''),
                               (''Accept'', ''application/json''),
                               (''Authorization'', ''Bearer '' @ sessionID client)],
                 req_body = None\<rparr>"
    and "NewRequest_err E ''GET'' url = None"
    and "httpClient client = Some h"
    and "Do E h (calls w) req = DoResponse resp"
    and "200 \<le> StatusCode resp" and "StatusCode resp \<le> 299"
    and "ReadAll (resp_Body resp) = (respData, None)"
    and "json_SObject E respData = Inr sobj"
    and "map_of sobj ''ids'' = Some (ISlice sobjIds)"
  shows "GetCreatedUpdatedRecords E client name startDateTime endDateTime sched w =
           ((case fetch_all E (snd (makeURL client ''sobjects/%s/updated/?start=%s&end=%s''))
                   name sched sobjIds of
               Panic p \<Rightarrow> Panic p
             | Return sobjs \<Rightarrow> Return (Inr sobjs)),
            snd (makeURL client ''sobjects/%s/updated/?start=%s&end=%s''),
            w\<lparr>calls := calls w @ [req]\<rparr>)"
proof -
  obtain b c' where m: "makeURL client ''sobjects/%s/updated/?start=%s&end=%s'' = (b, c')"
    by (cases "makeURL client ''sobjects/%s/updated/?start=%s&end=%s''")
  then have c': "c' = client\<lparr>apiVersion := filter (\<lambda>c. c \<noteq> CHR ''v'') (apiVersion client)\<rparr>"
    by (simp add: makeURL_eq)
  have hc: "httpClient c' = Some h" and sid: "sessionID c' = sessionID client"
    using assms(5) by (simp_all add: c')
  have u: "fmt_Sprintf E b [name, QueryEscape E startDateTime, QueryEscape E endDateTime] = url"
    using assms(2) m by simp
  have nr: "\<not> RetryLogic (StatusCode resp)"
    using assms(7,8) by (simp add: RetryLogic_errorCodes)
  have st: "\<not> (StatusCode resp < 200 \<or> 299 < StatusCode resp)"
    using assms(7,8) by simp
  have d: "Do E h (calls w)
             \<lparr>req_method = ''GET'', req_url = url,
               req_header = [(''Content-Type'', ''application/json; charset=UTF-8''),
                             (''Accept'', ''application/json''),
                             (''Authorization'', ''Bearer '' @ sessionID client)],
               req_body = None\<rparr> = DoResponse resp"
    using assms(3,6) by simp
  show ?thesis
    unfolding GetCreatedUpdatedRecords_def m
    using assms(1) d
    by (simp add: isLoggedIn_def Let_def u assms(4) hc sid nr st assms(9,10,11) assms(3)
        split: outcome.split)
qed

lemma sample_ids_decode:
  "json_SObject (sample_env r) sample_ids_body
     = Inr [(''ids'', ISlice [IString ''A'', IString ''B'', IString ''C'']),
            (''latestDateCovered'', IString ''2024-01-02T00:00:00.000+0000'')]"
  by (simp add: sample_env_def)

lemma sample_Get:
  "Get (sample_env r) c n i x =
     (if x = ''B'' then (None, Some (Sfdc ERR_DATA_NOT_FOUND))
      else (Some [(''Id'', IString x)], None))"
  by (simp add: sample_env_def)

text \<open>
  Claim C3. When the response to the request for the changed records has a status
  from 200 to 299 and its body decodes to a map whose entry \<open>ids\<close> is a list of \<open>n\<close>
  identifier strings, \<open>GetCreatedUpdatedRecords\<close> returns a nil error and a slice of
  length \<open>n\<close>; whatever the order in which the goroutines complete, the slot at the
  index of an identifier holds the record fetched for that identifier when the fetch
  returned a nil error, and nil, the zero value, when the fetch failed.
\<close>

theorem GetCreatedUpdatedRecords_slots:
  assumes "sessionID client \<noteq> []"
    and "url = fmt_Sprintf E (fst (makeURL client ''sobjects/%s/updated/?start=%s&end=%s''))
                 [name, QueryEscape E startDateTime, QueryEscape E endDateTime]"
    and "req = \<lparr>req_method = ''GET'', req_url = url,
                 req_header = [(''Content-Type'', ''application/json; charset=UTF-8''),
                               (''Accept'', ''application/json''),
                               (''Authorization'', ''Bearer '' @ sessionID client)],
                 req_body = None\<rparr>"
    and "NewRequest_err E ''GET'' url = None"
    and "httpClient client = Some h"
    and "Do E h (calls w) req = DoResponse resp"
    and "200 \<le> StatusCode resp" and "StatusCode resp \<le> 299"
    and "ReadAll (resp_Body resp) = (respData, None)"
    and "json_SObject E respData = Inr sobj"
    and "map_of sobj ''ids'' = Some (ISlice (map IString ids))"
    and "distinct sched" and "set sched = {..<length ids}"
  shows "\<exists>sobjs.
           fst (GetCreatedUpdatedRecords E client name startDateTime endDateTime sched w)
             = Return (Inr sobjs)
           \<and> length sobjs = length ids
           \<and> (\<forall>i<length ids. sobjs ! i =
                 (case Get E (snd (makeURL client ''sobjects/%s/updated/?start=%s&end=%s''))
                         name i (ids ! i) of
                    (sobj, None) \<Rightarrow> sobj
                  | (sobj, Some err) \<Rightarrow> None))"
proof -
  let ?c = "snd (makeURL client ''sobjects/%s/updated/?start=%s&end=%s'')"
  from fetch_all_strings [OF assms(12,13), of E ?c name]
  obtain sobjs where f: "fetch_all E ?c name sched (map IString ids) = Return sobjs"
    and l: "length sobjs = length ids"
    and s: "\<forall>i<length ids. sobjs ! i =
                 (case Get E ?c name i (ids ! i) of
                    (sobj, None) \<Rightarrow> sobj
                  | (sobj, Some err) \<Rightarrow> None)"
    by blast
  have "fst (GetCreatedUpdatedRecords E client name startDateTime endDateTime sched w)
          = Return (Inr sobjs)"
    by (simp add: GetCreatedUpdatedRecords_eq [OF assms(1-11)] f)
  with l s show ?thesis by blast
qed

theorem GetCreatedUpdatedRecords_slots_witness:
  "sessionID sample_client \<noteq> []
   \<and> distinct [2, 0, 1 :: nat]
   \<and> set [2, 0, 1 :: nat] = {..<length [''A'', ''B'', ''C'']}
   \<and> fst (GetCreatedUpdatedRecords (sample_env (sample_response 200 sample_ids_body)) sample_client
          ''Account'' ''2024-01-01T00:00:00+00:00'' ''2024-01-02T00:00:00+00:00'' [2, 0, 1]
          \<lparr>calls = []\<rparr>)
       = Return (Inr [Some [(''Id'', IString ''A'')], None, Some [(''Id'', IString ''C'')]])"
proof -
  let ?E = "sample_env (sample_response 200 sample_ids_body)"
  let ?ids = "[''A'', ''B'', ''C'']"
  have a1: "sessionID sample_client \<noteq> []"
    by (simp add: sample_client_simps)
  have a4: "NewRequest_err ?E ''GET'' u = None" for u
    by (simp add: sample_env_simps)
  have a5: "httpClient sample_client = Some 0"
    by (simp add: sample_client_simps)
  have a6: "Do ?E 0 cs rq = DoResponse \<lparr>StatusCode = 200, resp_Body = Body sample_ids_body None\<rparr>"
    for cs rq
    by (simp add: sample_env_simps sample_response_def)
  have a7: "200 \<le> StatusCode \<lparr>StatusCode = 200, resp_Body = Body sample_ids_body None\<rparr>"
    and a8: "StatusCode \<lparr>StatusCode = 200, resp_Body = Body sample_ids_body None\<rparr> \<le> 299"
    and a9: "ReadAll (resp_Body \<lparr>StatusCode = 200, resp_Body = Body sample_ids_body None\<rparr>)
               = (sample_ids_body, None)"
    by simp_all
  have a11: "map_of [(''ids'', ISlice [IString ''A'', IString ''B'', IString ''C'']),
                     (''latestDateCovered'', IString ''2024-01-02T00:00:00.000+0000'')] ''ids''
               = Some (ISlice (map IString ?ids))"
    by simp
  have a12: "distinct [2, 0, 1 :: nat]"
    by simp
  have a13: "set [2, 0, 1 :: nat] = {..<length ?ids}"
    by (auto simp: lessThan_def)
  from GetCreatedUpdatedRecords_slots [OF a1 refl refl a4 a5 a6 a7 a8 a9 sample_ids_decode a11 a12 a13,
      of "''Account''" "''2024-01-01T00:00:00+00:00''" "''2024-01-02T00:00:00+00:00''" "\<lparr>calls = []\<rparr>"]
  obtain sobjs where
    r: "fst (GetCreatedUpdatedRecords ?E sample_client ''Account'' ''2024-01-01T00:00:00+00:00''
              ''2024-01-02T00:00:00+00:00'' [2, 0, 1] \<lparr>calls = []\<rparr>) = Return (Inr sobjs)"
    and l: "length sobjs = 3"
    and s: "\<forall>i<3. sobjs ! i =
              (case Get ?E (snd (makeURL sample_client ''sobjects/%s/updated/?start=%s&end=%s''))
                      ''Account'' i (?ids ! i) of
                 (sobj, None) \<Rightarrow> sobj
               | (sobj, Some err) \<Rightarrow> None)"
    by auto
  from s have "sobjs ! 0 = Some [(''Id'', IString ''A'')]" "sobjs ! 1 = None"
    "sobjs ! 2 = Some [(''Id'', IString ''C'')]"
    by (simp_all add: sample_Get)
  with l have "sobjs = [Some [(''Id'', IString ''A'')], None, Some [(''Id'', IString ''C'')]]"
    by (simp add: list_eq_iff_nth_eq less_Suc_eq numeral_3_eq_3 numeral_2_eq_2)
  with r a1 a12 a13 show ?thesis by simp
qed

end
